theory Spec2Isabelle
  imports Main "HOL-Library.Log_Nat"
begin

section \<open>The invoice actions of \<^verbatim>\<open>src/app/lib/actions.ts\<close>\<close>

text \<open>
  The file exports four server actions: \<^verbatim>\<open>createInvoice\<close>, \<^verbatim>\<open>updateInvoice\<close>,
  \<^verbatim>\<open>deleteInvoice\<close> and \<^verbatim>\<open>authenticate\<close>. Each reads a \<^verbatim>\<open>FormData\<close>, validates it
  with a zod schema, calls an external capability (the SQL executor, the cache
  invalidation, the sign-in) and turns what happens into a returned value or a raised
  error. The embedding keeps that shape: a call is a function from the environment (what
  each external capability answers) and the arguments to the outcome of the call paired
  with the list of external calls it issued, in order.
\<close>

subsection \<open>JavaScript values read from a form\<close>

text \<open>
  \<^verbatim>\<open>FormData.get(name)\<close> answers the first entry of that name, a string or a
  \<^verbatim>\<open>File\<close>, and \<^verbatim>\<open>null\<close> when there is none. The actions take
  \<^verbatim>\<open>formData?: FormData\<close> and read it with \<^verbatim>\<open>formData?.get(...)\<close>, which is
  \<^verbatim>\<open>undefined\<close> when no form data was passed. Strings are lists of code units below
  256; the content of a file is never read.
\<close>

datatype form_entry = Text string | Blob

type_synonym form_data = "(string \<times> form_entry) list"

datatype js_value = Undefined | Null | Str string | FileObj

definition form_get :: "form_data option \<Rightarrow> string \<Rightarrow> js_value" where
  "form_get formData name =
     (case formData of
        None \<Rightarrow> Undefined
      | Some fd \<Rightarrow>
          (case map_of fd name of
             None \<Rightarrow> Null
           | Some (Text s) \<Rightarrow> Str s
           | Some Blob \<Rightarrow> FileObj))"

subsection \<open>JavaScript numbers\<close>

text \<open>
  A JavaScript number is an IEEE 754 binary64 value: not-a-number, an infinity, or a
  finite value, kept here as the rational it denotes (the two zeros are one \<open>Fin 0\<close>:
  validation rejects both, so the sign of a zero never reaches the product).
  \<open>to_double\<close> rounds a rational to the nearest
  binary64 value, ties to the even significand, with gradual underflow below
  \<open>2\<^sup>-\<^sup>1\<^sup>0\<^sup>2\<^sup>2\<close> and overflow to an infinity from \<open>2\<^sup>1\<^sup>0\<^sup>2\<^sup>4\<close> on.
\<close>

datatype js_number = NaN | PosInf | NegInf | Fin rat

definition pow2 :: "int \<Rightarrow> rat" where
  "pow2 e = (if 0 \<le> e then 2 ^ nat e else 1 / 2 ^ nat (- e))"

definition ilog2 :: "rat \<Rightarrow> int" where
  \<comment> \<open>For \<open>0 < a\<close>, the exponent \<open>e\<close> with \<open>2\<^sup>e \<le> a < 2\<^sup>e\<^sup>+\<^sup>1\<close>.\<close>
  "ilog2 a = (if 1 \<le> a then bitlen \<lfloor>a\<rfloor> - 1 else - bitlen (\<lceil>1 / a\<rceil> - 1))"

definition round_half_even :: "rat \<Rightarrow> int" where
  "round_half_even y =
     (let f = \<lfloor>y\<rfloor>; d = y - of_int f
      in if d < 1 / 2 then f else if 1 / 2 < d then f + 1 else if even f then f else f + 1)"

definition to_double :: "rat \<Rightarrow> js_number" where
  "to_double x =
     (if x = 0 then Fin 0
      else let a = \<bar>x\<bar>;
               q = max (ilog2 a - 52) (- 1074);
               r = of_int (round_half_even (a / pow2 q)) * pow2 q
           in if pow2 1024 \<le> r then (if 0 < x then PosInf else NegInf)
              else Fin (if 0 < x then r else - r))"

text \<open>The product \<^verbatim>\<open>a * b\<close> of two numbers.\<close>

fun js_mul :: "js_number \<Rightarrow> js_number \<Rightarrow> js_number" where
  "js_mul NaN b = NaN"
| "js_mul a NaN = NaN"
| "js_mul (Fin x) (Fin y) = to_double (x * y)"
| "js_mul (Fin x) PosInf = (if x = 0 then NaN else if 0 < x then PosInf else NegInf)"
| "js_mul (Fin x) NegInf = (if x = 0 then NaN else if 0 < x then NegInf else PosInf)"
| "js_mul PosInf (Fin y) = (if y = 0 then NaN else if 0 < y then PosInf else NegInf)"
| "js_mul NegInf (Fin y) = (if y = 0 then NaN else if 0 < y then NegInf else PosInf)"
| "js_mul PosInf PosInf = PosInf"
| "js_mul PosInf NegInf = NegInf"
| "js_mul NegInf PosInf = NegInf"
| "js_mul NegInf NegInf = PosInf"

text \<open>The comparison \<^verbatim>\<open>a <= b\<close>, false as soon as one side is not a number.\<close>

fun js_le :: "js_number \<Rightarrow> js_number \<Rightarrow> bool" where
  "js_le NaN b = False"
| "js_le a NaN = False"
| "js_le NegInf b = True"
| "js_le a PosInf = True"
| "js_le PosInf b = False"
| "js_le a NegInf = False"
| "js_le (Fin x) (Fin y) = (x \<le> y)"

subsection \<open>\<^verbatim>\<open>Number(value)\<close>\<close>

text \<open>
  \<^verbatim>\<open>z.coerce.number()\<close> applies \<^verbatim>\<open>Number\<close> to what the form gave.
  \<^verbatim>\<open>Number(undefined)\<close> is not a number, \<^verbatim>\<open>Number(null)\<close> is 0, an object such as
  a \<^verbatim>\<open>File\<close> is converted through its string \<^verbatim>\<open>[object File]\<close> and is not a number,
  and a string is read by the grammar of the language standard: white space is trimmed,
  the empty string is 0, then comes a binary, octal or hexadecimal integer with its
  prefix, or an optionally signed \<^verbatim>\<open>Infinity\<close> or decimal literal with an optional
  fraction and exponent. Anything else is not a number.
\<close>

definition is_white_space :: "char \<Rightarrow> bool" where
  "is_white_space c =
     (c \<in> set [CHR 0x09, CHR 0x0A, CHR 0x0B, CHR 0x0C, CHR 0x0D, CHR 0x20, CHR 0xA0])"

definition trim :: "string \<Rightarrow> string" where
  "trim s = rev (dropWhile is_white_space (rev (dropWhile is_white_space s)))"

definition digit_table :: "(char \<times> nat) list" where
  "digit_table = zip ''0123456789abcdef'' [0..<16] @ zip ''ABCDEF'' [10..<16]"

definition digit_of :: "nat \<Rightarrow> char \<Rightarrow> nat option" where
  "digit_of radix c =
     (case map_of digit_table c of
        None \<Rightarrow> None
      | Some d \<Rightarrow> if d < radix then Some d else None)"

fun digits_from :: "nat \<Rightarrow> nat \<Rightarrow> string \<Rightarrow> nat option" where
  "digits_from radix acc [] = Some acc"
| "digits_from radix acc (c # cs) =
     (case digit_of radix c of
        None \<Rightarrow> None
      | Some d \<Rightarrow> digits_from radix (acc * radix + d) cs)"

definition parse_digits :: "nat \<Rightarrow> string \<Rightarrow> nat option" where
  \<comment> \<open>One digit or more in the radix, and nothing else.\<close>
  "parse_digits radix cs = (if cs = [] then None else digits_from radix 0 cs)"

definition non_decimal_literal :: "string \<Rightarrow> nat option" where
  "non_decimal_literal s =
     (case s of
        c0 # c1 # ds \<Rightarrow>
          if c0 \<noteq> CHR ''0'' then None
          else if c1 = CHR ''x'' \<or> c1 = CHR ''X'' then parse_digits 16 ds
          else if c1 = CHR ''o'' \<or> c1 = CHR ''O'' then parse_digits 8 ds
          else if c1 = CHR ''b'' \<or> c1 = CHR ''B'' then parse_digits 2 ds
          else None
      | _ \<Rightarrow> None)"

fun after_char :: "char \<Rightarrow> string \<Rightarrow> string option" where
  \<comment> \<open>The rest of the string when it starts with the character.\<close>
  "after_char c [] = None"
| "after_char c (d # t) = (if d = c then Some t else None)"

definition exponent_part :: "string \<Rightarrow> int option" where
  \<comment> \<open>What follows the mantissa: nothing, or \<^verbatim>\<open>e\<close> with a signed integer.\<close>
  "exponent_part s =
     (if s = [] then Some 0
      else
        (case (if after_char (CHR ''e'') s = None then after_char (CHR ''E'') s
               else after_char (CHR ''e'') s) of
           None \<Rightarrow> None
         | Some t \<Rightarrow>
             (case after_char (CHR ''-'') t of
                Some ds \<Rightarrow> map_option (\<lambda>n. - int n) (parse_digits 10 ds)
              | None \<Rightarrow>
                  (case after_char (CHR ''+'') t of
                     Some ds \<Rightarrow> map_option int (parse_digits 10 ds)
                   | None \<Rightarrow> map_option int (parse_digits 10 t)))))"

definition is_digit :: "char \<Rightarrow> bool" where
  "is_digit c = (digit_of 10 c \<noteq> None)"

definition pow10 :: "int \<Rightarrow> rat" where
  "pow10 e = (if 0 \<le> e then 10 ^ nat e else 1 / 10 ^ nat (- e))"

definition decimal_literal :: "string \<Rightarrow> rat option" where
  \<comment> \<open>Digits, an optional point with digits after it, an optional exponent; a digit at
      least on one side of the point. The value is exact.\<close>
  "decimal_literal s =
     (let ip = takeWhile is_digit s;
          r1 = dropWhile is_digit s;
          fp = (case after_char (CHR ''.'') r1 of Some t \<Rightarrow> takeWhile is_digit t | None \<Rightarrow> []);
          r2 = (case after_char (CHR ''.'') r1 of Some t \<Rightarrow> dropWhile is_digit t | None \<Rightarrow> r1)
      in if ip = [] \<and> fp = [] then None
         else
           (case (digits_from 10 0 (ip @ fp), exponent_part r2) of
              (Some m, Some e) \<Rightarrow> Some (of_nat m * pow10 (e - int (length fp)))
            | _ \<Rightarrow> None))"

definition unsigned_literal :: "string \<Rightarrow> js_number" where
  "unsigned_literal s =
     (if s = ''Infinity'' then PosInf
      else case decimal_literal s of None \<Rightarrow> NaN | Some x \<Rightarrow> to_double x)"

fun js_neg :: "js_number \<Rightarrow> js_number" where
  "js_neg NaN = NaN"
| "js_neg PosInf = NegInf"
| "js_neg NegInf = PosInf"
| "js_neg (Fin x) = Fin (- x)"

definition string_to_number :: "string \<Rightarrow> js_number" where
  "string_to_number s =
     (let t = trim s
      in if t = [] then Fin 0
         else
           (case non_decimal_literal t of
              Some n \<Rightarrow> to_double (of_nat n)
            | None \<Rightarrow>
                (case after_char (CHR ''-'') t of
                   Some u \<Rightarrow> js_neg (unsigned_literal u)
                 | None \<Rightarrow>
                     (case after_char (CHR ''+'') t of
                        Some u \<Rightarrow> unsigned_literal u
                      | None \<Rightarrow> unsigned_literal t))))"

fun js_Number :: "js_value \<Rightarrow> js_number" where
  "js_Number Undefined = NaN"
| "js_Number Null = Fin 0"
| "js_Number (Str s) = string_to_number s"
| "js_Number FileObj = NaN"

subsection \<open>The zod schema \<^verbatim>\<open>FormSchema\<close>\<close>

text \<open>
  \<^verbatim>\<open>CreateInvoice\<close> and \<^verbatim>\<open>UpdateInvoice\<close> are both
  \<^verbatim>\<open>FormSchema.omit({ id: true, date: true })\<close>: an object schema with the three
  keys \<^verbatim>\<open>customerId\<close>, \<^verbatim>\<open>amount\<close>, \<^verbatim>\<open>status\<close>. Each key's schema answers
  the parsed value or the messages of its issues. The library (zod 3) builds an issue's
  message from the schema's parameters when it has them and from its default error map
  otherwise:
  \<^item> \<^verbatim>\<open>z.string({ invalid_type_error })\<close> accepts every string. Its
    \<^verbatim>\<open>invalid_type_error\<close> is the message of a value of another type that is not
    \<^verbatim>\<open>undefined\<close>; for \<^verbatim>\<open>undefined\<close> the message is \<^verbatim>\<open>required_error\<close>,
    which the schema does not set, so the default \<^verbatim>\<open>Required\<close>.
  \<^item> \<^verbatim>\<open>z.coerce.number().gt(0, { message })\<close> applies \<^verbatim>\<open>Number\<close> first. When
    the result is not a number the issue is an invalid type, for which this schema sets
    no message: the default is \<^verbatim>\<open>Expected number, received nan\<close>. Otherwise the
    check \<^verbatim>\<open>gt(0)\<close> fails when \<^verbatim>\<open>data <= 0\<close>, with the message given.
  \<^item> \<^verbatim>\<open>z.enum(['pending', 'paid'], { invalid_type_error })\<close> raises an invalid type
    for a value that is not a string (message as for the string schema) and an invalid
    enum value for a string outside the list; \<^verbatim>\<open>invalid_type_error\<close> does not apply
    to that issue, whose default message names the options and the string received.
\<close>

definition quoted :: "string \<Rightarrow> string" where
  \<comment> \<open>The string between single quotes, as the default messages print it.\<close>
  "quoted s = [CHR 0x27] @ s @ [CHR 0x27]"

definition customerId_schema :: "js_value \<Rightarrow> string list + string" where
  "customerId_schema v =
     (case v of
        Str s \<Rightarrow> Inr s
      | Undefined \<Rightarrow> Inl [''Required'']
      | _ \<Rightarrow> Inl [''Please select a customer.''])"

definition amount_schema :: "js_value \<Rightarrow> string list + js_number" where
  "amount_schema v =
     (let n = js_Number v
      in if n = NaN then Inl [''Expected number, received nan'']
         else if js_le n (Fin 0) then Inl [''Please enter an amount greater than $0.'']
         else Inr n)"

definition status_values :: "string list" where
  "status_values = [''pending'', ''paid'']"

definition status_schema :: "js_value \<Rightarrow> string list + string" where
  "status_schema v =
     (case v of
        Str s \<Rightarrow>
          if s \<in> set status_values then Inr s
          else Inl [''Invalid enum value. Expected '' @ quoted ''pending'' @ '' | ''
                      @ quoted ''paid'' @ '', received '' @ quoted s]
      | Undefined \<Rightarrow> Inl [''Required'']
      | _ \<Rightarrow> Inl [''Please select an invoice status.''])"

text \<open>An issue is the key it is about and its message.\<close>

type_synonym issue = "string \<times> string"

record invoice_fields =
  customerId :: string
  amount :: js_number
  status :: string

definition issues_at :: "string \<Rightarrow> string list + 'a \<Rightarrow> issue list" where
  "issues_at key r = (case r of Inl ms \<Rightarrow> map (Pair key) ms | Inr _ \<Rightarrow> [])"

text \<open>
  The object read by both parses:
  \<^verbatim>\<open>{ customerId: formData?.get('customerId'), amount: formData?.get('amount'),
  status: formData?.get('status') }\<close>.
\<close>

record raw_fields =
  raw_customerId :: js_value
  raw_amount :: js_value
  raw_status :: js_value

definition form_fields :: "form_data option \<Rightarrow> raw_fields" where
  "form_fields formData =
     \<lparr>raw_customerId = form_get formData ''customerId'',
      raw_amount = form_get formData ''amount'',
      raw_status = form_get formData ''status''\<rparr>"

text \<open>
  \<^verbatim>\<open>safeParse\<close> of the object schema parses every key, whatever the others gave,
  and collects the issues in the order of the keys; it succeeds when there is none.
\<close>

definition CreateInvoice_safeParse :: "raw_fields \<Rightarrow> issue list + invoice_fields" where
  "CreateInvoice_safeParse obj =
     (let c = customerId_schema (raw_customerId obj);
          a = amount_schema (raw_amount obj);
          s = status_schema (raw_status obj)
      in case (c, a, s) of
           (Inr c', Inr a', Inr s') \<Rightarrow> Inr \<lparr>customerId = c', amount = a', status = s'\<rparr>
         | _ \<Rightarrow> Inl (issues_at ''customerId'' c @ issues_at ''amount'' a @ issues_at ''status'' s))"

text \<open>
  \<^verbatim>\<open>error.flatten().fieldErrors\<close>: for each issue in turn, the list of its key,
  created empty when the key is new, gets the message pushed at its end.
\<close>

definition push_issue :: "(string \<rightharpoonup> string list) \<Rightarrow> issue \<Rightarrow> (string \<rightharpoonup> string list)" where
  "push_issue m i = m(fst i \<mapsto> (case m (fst i) of None \<Rightarrow> [] | Some ms \<Rightarrow> ms) @ [snd i])"

definition fieldErrors :: "issue list \<Rightarrow> (string \<rightharpoonup> string list)" where
  "fieldErrors issues = foldl push_issue Map.empty issues"

subsection \<open>Errors, results and the environment\<close>

text \<open>
  What a call can raise: a \<^verbatim>\<open>ZodError\<close> with its issues (the strict \<^verbatim>\<open>parse\<close>),
  an \<^verbatim>\<open>AuthError\<close> with its \<^verbatim>\<open>type\<close>, or any other error.
\<close>

datatype exn = ZodError "issue list" | AuthError string | OtherError string

datatype 'a outcome = Returned 'a | Thrown exn

text \<open>The type \<^verbatim>\<open>State\<close> of the file, as far as the actions fill it.\<close>

record state =
  errors :: "(string \<rightharpoonup> string list) option"
  message :: "string option"

datatype statement =
    Insert_invoices string js_number string string
  | Update_invoices string js_number string "string option"
  | Delete_invoices string

datatype effect =
    Sql statement
  | RevalidatePath string
  | RevalidateRedirectPath string
  | SignIn string form_data

text \<open>
  The environment of a call: for each external capability, whether the call completes
  (\<open>None\<close>) or what it raises; and the date \<^verbatim>\<open>new Date().toISOString().split('T')[0]\<close>
  of the call. \<^verbatim>\<open>revalidateRedirectPath\<close> is imported from \<^verbatim>\<open>./utils\<close>, outside
  this file.
\<close>

record env =
  sql :: "statement \<Rightarrow> exn option"
  revalidatePath :: "string \<Rightarrow> exn option"
  revalidateRedirectPath :: "string \<Rightarrow> exn option"
  signIn :: "string \<Rightarrow> form_data \<Rightarrow> exn option"
  today :: string

subsection \<open>The actions\<close>

definition validateInvoiceForms :: "form_data option \<Rightarrow> state option" where
  "validateInvoiceForms formData =
     (case CreateInvoice_safeParse (form_fields formData) of
        Inl issues \<Rightarrow>
          Some \<lparr>errors = Some (fieldErrors issues),
                message = Some ''Missing Fields. Failed to Create Invoice.''\<rparr>
      | Inr _ \<Rightarrow> None)"

text \<open>\<^verbatim>\<open>parse\<close> is \<^verbatim>\<open>safeParse\<close> that raises the error instead of answering it.\<close>

definition CreateInvoice_parse :: "raw_fields \<Rightarrow> exn + invoice_fields" where
  "CreateInvoice_parse obj =
     (case CreateInvoice_safeParse obj of Inl issues \<Rightarrow> Inl (ZodError issues) | Inr d \<Rightarrow> Inr d)"

definition UpdateInvoice_parse :: "raw_fields \<Rightarrow> exn + invoice_fields" where
  "UpdateInvoice_parse obj = CreateInvoice_parse obj"

definition only_message :: "string \<Rightarrow> state" where
  \<comment> \<open>The object \<^verbatim>\<open>{ message: m }\<close>.\<close>
  "only_message m = \<lparr>errors = None, message = Some m\<rparr>"

definition createInvoice ::
  "env \<Rightarrow> state option \<Rightarrow> form_data option \<Rightarrow> state option outcome \<times> effect list" where
  "createInvoice e prevState formData =
     (case validateInvoiceForms formData of
        Some validationError \<Rightarrow> (Returned (Some validationError), [])
      | None \<Rightarrow>
          (case CreateInvoice_parse (form_fields formData) of
             Inl error \<Rightarrow> (Returned (Some (only_message ''Something went wrong'')), [])
           | Inr d \<Rightarrow>
               (let amountInCents = js_mul (amount d) (Fin 100);
                    date = today e;
                    q = Insert_invoices (customerId d) amountInCents (status d) date
                in case sql e q of
                     Some error \<Rightarrow>
                       (Returned (Some (only_message ''Something went wrong'')), [Sql q])
                   | None \<Rightarrow>
                       (case revalidateRedirectPath e ''/dashboard/invoices'' of
                          Some error \<Rightarrow>
                            (Thrown error,
                             [Sql q, RevalidateRedirectPath ''/dashboard/invoices''])
                        | None \<Rightarrow>
                            (Returned None,
                             [Sql q, RevalidateRedirectPath ''/dashboard/invoices''])))))"

definition updateInvoice ::
  "env \<Rightarrow> string option \<Rightarrow> state option \<Rightarrow> form_data option
    \<Rightarrow> state option outcome \<times> effect list" where
  "updateInvoice e id' prevState formData =
     (case validateInvoiceForms formData of
        Some validationError \<Rightarrow> (Returned (Some validationError), [])
      | None \<Rightarrow>
          (case UpdateInvoice_parse (form_fields formData) of
             Inl error \<Rightarrow> (Returned (Some (only_message ''Somethign went wrong'')), [])
           | Inr d \<Rightarrow>
               (let amountInCents = js_mul (amount d) (Fin 100);
                    q = Update_invoices (customerId d) amountInCents (status d) id'
                in case sql e q of
                     Some error \<Rightarrow>
                       (Returned (Some (only_message ''Somethign went wrong'')), [Sql q])
                   | None \<Rightarrow>
                       (case revalidateRedirectPath e ''/dashboard/invoices'' of
                          Some error \<Rightarrow>
                            (Thrown error,
                             [Sql q, RevalidateRedirectPath ''/dashboard/invoices''])
                        | None \<Rightarrow>
                            (Returned None,
                             [Sql q, RevalidateRedirectPath ''/dashboard/invoices''])))))"

definition deleteInvoice :: "env \<Rightarrow> string \<Rightarrow> state outcome \<times> effect list" where
  "deleteInvoice e id' =
     (let q = Delete_invoices id'
      in case sql e q of
           Some error \<Rightarrow> (Returned (only_message ''Something went wrong''), [Sql q])
         | None \<Rightarrow>
             (case revalidatePath e ''/dashboard/invoices'' of
                Some error \<Rightarrow>
                  (Returned (only_message ''Something went wrong''),
                   [Sql q, RevalidatePath ''/dashboard/invoices''])
              | None \<Rightarrow>
                  (Returned (only_message ''Deleted Invoice.''),
                   [Sql q, RevalidatePath ''/dashboard/invoices''])))"

definition authenticate ::
  "env \<Rightarrow> string option \<Rightarrow> form_data \<Rightarrow> string option outcome \<times> effect list" where
  "authenticate e prevState formData =
     (case signIn e ''credentials'' formData of
        None \<Rightarrow> (Returned None, [SignIn ''credentials'' formData])
      | Some error \<Rightarrow>
          (case error of
             AuthError type \<Rightarrow>
               if type = ''CredentialsSignin''
               then (Returned (Some ''Invalid credentials.''), [SignIn ''credentials'' formData])
               else (Returned (Some ''Something went wrong.''), [SignIn ''credentials'' formData])
           | _ \<Rightarrow> (Thrown error, [SignIn ''credentials'' formData])))"

subsection \<open>Reading a result\<close>

text \<open>
  \<open>errors_at r key\<close> is \<^verbatim>\<open>r?.errors?.[key]\<close>: the messages a result holds for a
  field, \<open>None\<close> when it holds none. \<open>entry_of\<close> is the entry a key's schema result
  contributes to the field errors.
\<close>

definition errors_at :: "state option \<Rightarrow> string \<Rightarrow> string list option" where
  "errors_at r key =
     (case r of
        None \<Rightarrow> None
      | Some st \<Rightarrow> (case errors st of None \<Rightarrow> None | Some m \<Rightarrow> m key))"

definition entry_of :: "string list + 'a \<Rightarrow> string list option" where
  "entry_of r = (case r of Inl ms \<Rightarrow> Some ms | Inr _ \<Rightarrow> None)"

text \<open>\<^verbatim>\<open>Number.isInteger\<close>: a finite number with no fractional part.\<close>

fun is_integer :: "js_number \<Rightarrow> bool" where
  "is_integer (Fin x) = (of_int \<lfloor>x\<rfloor> = x)"
| "is_integer _ = False"

subsection \<open>An environment for the examples\<close>

text \<open>
  Every external call completes, on the first of March 2024. The examples change one
  capability at a time to make it raise.
\<close>

definition env_ok :: env where
  "env_ok =
     \<lparr>sql = (\<lambda>q. None), revalidatePath = (\<lambda>p. None), revalidateRedirectPath = (\<lambda>p. None),
      signIn = (\<lambda>provider fd. None), today = ''2024-03-01''\<rparr>"

section \<open>Properties\<close>

subsection \<open>Validation, field by field\<close>

lemma customerId_schema_cases:
  "(\<exists>s. customerId_schema v = Inr s) \<or> (\<exists>m. customerId_schema v = Inl [m])"
  by (cases v) (simp_all add: customerId_schema_def)

lemma amount_schema_cases:
  "(\<exists>n. amount_schema v = Inr n) \<or> (\<exists>m. amount_schema v = Inl [m])"
  by (simp add: amount_schema_def Let_def)

lemma status_schema_cases:
  "(\<exists>s. status_schema v = Inr s) \<or> (\<exists>m. status_schema v = Inl [m])"
  by (cases v) (simp_all add: status_schema_def)

lemma safeParse_Inl:
  assumes "CreateInvoice_safeParse obj = Inl iss"
  shows "fieldErrors iss ''customerId'' = entry_of (customerId_schema (raw_customerId obj))
       \<and> fieldErrors iss ''amount'' = entry_of (amount_schema (raw_amount obj))
       \<and> fieldErrors iss ''status'' = entry_of (status_schema (raw_status obj))"
  using assms customerId_schema_cases [of "raw_customerId obj"]
    amount_schema_cases [of "raw_amount obj"] status_schema_cases [of "raw_status obj"]
  by (auto simp add: CreateInvoice_safeParse_def Let_def issues_at_def fieldErrors_def
      push_issue_def entry_of_def)

lemma safeParse_Inr:
  "CreateInvoice_safeParse obj = Inr d \<longleftrightarrow>
     customerId_schema (raw_customerId obj) = Inr (customerId d)
   \<and> amount_schema (raw_amount obj) = Inr (amount d)
   \<and> status_schema (raw_status obj) = Inr (status d)"
  by (auto simp add: CreateInvoice_safeParse_def Let_def split: sum.splits)

lemma safeParse_form_Inr:
  assumes "CreateInvoice_safeParse (form_fields formData) = Inr d"
  shows "customerId_schema (form_get formData ''customerId'') = Inr (customerId d)"
    and "amount_schema (form_get formData ''amount'') = Inr (amount d)"
    and "status_schema (form_get formData ''status'') = Inr (status d)"
  using assms by (simp_all add: safeParse_Inr form_fields_def)

text \<open>
  The messages \<^verbatim>\<open>validateInvoiceForms\<close> holds for a field are those of the field's own
  schema, whatever the other two fields are.
\<close>

lemma errors_at_validate:
  "errors_at (validateInvoiceForms formData) ''customerId''
     = entry_of (customerId_schema (form_get formData ''customerId''))
   \<and> errors_at (validateInvoiceForms formData) ''amount''
     = entry_of (amount_schema (form_get formData ''amount''))
   \<and> errors_at (validateInvoiceForms formData) ''status''
     = entry_of (status_schema (form_get formData ''status''))"
proof (cases "CreateInvoice_safeParse (form_fields formData)")
  case (Inl iss)
  from safeParse_Inl [OF Inl] Inl show ?thesis
    by (simp add: validateInvoiceForms_def errors_at_def form_fields_def)
next
  case (Inr d)
  then have v: "validateInvoiceForms formData = None"
    by (simp add: validateInvoiceForms_def)
  from safeParse_form_Inr [OF Inr] v show ?thesis
    by (simp add: errors_at_def entry_of_def)
qed

lemma validate_None_iff:
  "validateInvoiceForms formData = None \<longleftrightarrow>
     (\<exists>d. CreateInvoice_safeParse (form_fields formData) = Inr d)"
  by (simp add: validateInvoiceForms_def split: sum.splits)

subsection \<open>Numbers read from concrete strings\<close>

lemma number_abc: "string_to_number ''abc'' = NaN"
  by code_simp

lemma number_10: "string_to_number ''10'' = Fin 10"
  by code_simp

lemma number_0: "string_to_number ''0'' = Fin 0"
  by code_simp

lemma number_45_5: "string_to_number ''45.5'' = Fin (91 / 2)"
  by code_simp

lemma number_minus_5: "string_to_number ''-5'' = Fin (- 5)"
  by code_simp

lemma number_empty: "string_to_number [] = Fin 0"
  by code_simp

lemma number_1_1: "string_to_number ''1.1'' = Fin (2476979795053773 / 2251799813685248)"
  by code_simp

lemma times_100_of_10: "js_mul (Fin 10) (Fin 100) = Fin 1000"
  by code_simp

lemma times_100_of_1_1:
  "js_mul (Fin (2476979795053773 / 2251799813685248)) (Fin 100)
     = Fin (7740561859543041 / 70368744177664)"
  by code_simp

lemma not_integer_110: "\<not> is_integer (Fin (7740561859543041 / 70368744177664))"
  by code_simp

subsection \<open>Rounding to binary64\<close>

text \<open>Rounding leaves a positive integer below \<open>2\<^sup>5\<^sup>3\<close> as it is.\<close>

lemma round_half_even_of_int: "round_half_even (of_int m) = m"
  by (simp add: round_half_even_def)

lemma pow2_nonpos: "q \<le> 0 \<Longrightarrow> pow2 q = 1 / 2 ^ nat (- q)"
  by (cases "q = 0") (simp_all add: pow2_def)

lemma ilog2_of_int: "0 < n \<Longrightarrow> ilog2 (of_int n) = bitlen n - 1"
  by (simp add: ilog2_def)

lemma bitlen_le_53:
  assumes "0 < n" and "n < 2 ^ 53"
  shows "1 \<le> bitlen n \<and> bitlen n \<le> 53"
proof -
  from bitlen_bounds [OF assms(1)] have lo: "2 ^ nat (bitlen n - 1) \<le> n" by simp
  have pos: "1 \<le> bitlen n"
    using assms(1) bitlen_eq_zero_iff [of n] bitlen_nonneg [of n] by linarith
  from lo assms(2) have lt: "(2::int) ^ nat (bitlen n - 1) < 2 ^ 53" by linarith
  have "nat (bitlen n - 1) < 53"
  proof (rule power_less_imp_less_exp)
    show "(1::int) < 2" by simp
    show "(2::int) ^ nat (bitlen n - 1) < 2 ^ 53" by (rule lt)
  qed
  with pos show ?thesis by linarith
qed

lemma to_double_of_int:
  assumes "0 < n" and "n < 2 ^ 53"
  shows "to_double (of_int n) = Fin (of_int n)"
proof -
  define q where "q = bitlen n - 53"
  define k where "k = nat (- q)"
  from bitlen_le_53 [OF assms] have q: "q \<le> 0" "- 1074 \<le> q" by (simp_all add: q_def)
  have m: "max (ilog2 (of_int n) - 52) (- 1074) = q"
    using q assms(1) by (simp add: ilog2_of_int q_def)
  have p: "pow2 q = 1 / 2 ^ k" using q by (simp add: pow2_nonpos k_def)
  have d: "rat_of_int n / pow2 q = of_int (n * 2 ^ k)" by (simp add: p)
  have r: "of_int (round_half_even (rat_of_int n / pow2 q)) * pow2 q = rat_of_int n"
    unfolding d round_half_even_of_int by (simp add: p)
  have "rat_of_int n < 2 ^ 53"
    using assms(2) by (metis of_int_less_iff of_int_numeral of_int_power)
  also have "\<dots> \<le> (2::rat) ^ 1024" by (rule power_increasing) simp_all
  finally have big: "\<not> pow2 1024 \<le> rat_of_int n" by (simp add: pow2_def)
  from assms(1) m r big show ?thesis
    by (simp add: to_double_def Let_def)
qed

text \<open>
  Two checks of the rounding itself: \<open>ilog2\<close> is the binary exponent of its argument,
  and a finite result of \<open>to_double\<close> is within half a unit in the last place of the
  number rounded.
\<close>

lemma ilog2_bounds:
  assumes "0 < a"
  shows "pow2 (ilog2 a) \<le> a \<and> a < pow2 (ilog2 a + 1)"
proof (cases "1 \<le> a")
  case True
  define n where "n = \<lfloor>a\<rfloor>"
  define b where "b = bitlen n"
  from True have n: "0 < n" by (simp add: n_def)
  from bitlen_bounds [OF n] have lo: "2 ^ nat (b - 1) \<le> n" and hi: "n < 2 ^ nat b"
    by (simp_all add: b_def)
  have b: "1 \<le> b"
    using n bitlen_eq_zero_iff [of n] bitlen_nonneg [of n] unfolding b_def by linarith
  have i: "ilog2 a = b - 1" using True by (simp add: ilog2_def n_def b_def)
  have "rat_of_int (2 ^ nat (b - 1)) \<le> of_int n" using lo by (simp only: of_int_le_iff)
  also have "\<dots> \<le> a" by (simp add: n_def)
  finally have l: "pow2 (b - 1) \<le> a" using b by (simp add: pow2_def)
  have "n + 1 \<le> 2 ^ nat b" using hi by simp
  then have "rat_of_int (n + 1) \<le> of_int (2 ^ nat b)" by (simp only: of_int_le_iff)
  moreover have "a < of_int (n + 1)" by (simp add: n_def) linarith
  ultimately have "a < of_int (2 ^ nat b)" by linarith
  then have u: "a < pow2 b" using b by (simp add: pow2_def)
  from l u i show ?thesis by simp
next
  case False
  define c where "c = \<lceil>1 / a\<rceil>"
  define m where "m = c - 1"
  define b where "b = bitlen m"
  from False assms have inv: "1 < 1 / a" by simp
  then have c: "2 \<le> c" unfolding c_def by (simp add: le_ceiling_iff)
  then have m: "0 < m" by (simp add: m_def)
  from bitlen_bounds [OF m] have lo: "2 ^ nat (b - 1) \<le> m" and hi: "m < 2 ^ nat b"
    by (simp_all add: b_def)
  have b: "1 \<le> b"
    using m bitlen_eq_zero_iff [of m] bitlen_nonneg [of m] unfolding b_def by linarith
  have i: "ilog2 a = - b" using False by (simp add: ilog2_def c_def m_def b_def)
  have "1 / a \<le> of_int c" by (simp add: c_def)
  also have "rat_of_int c \<le> of_int (2 ^ nat b)" using hi unfolding m_def by (simp only: of_int_le_iff)
  finally have "1 / a \<le> 2 ^ nat b" by simp
  then have "1 \<le> 2 ^ nat b * a" using assms by (simp add: pos_divide_le_eq)
  then have l: "pow2 (- b) \<le> a" using b
    by (simp add: pow2_def pos_divide_le_eq mult.commute)
  have "rat_of_int (2 ^ nat (b - 1)) \<le> of_int m" using lo by (simp only: of_int_le_iff)
  also have "rat_of_int m < 1 / a" unfolding m_def c_def by (simp add: ceiling_correct)
  finally have "2 ^ nat (b - 1) < 1 / a" by simp
  then have "2 ^ nat (b - 1) * a < 1" using assms by (simp add: pos_less_divide_eq)
  then have u: "a < pow2 (- b + 1)" using b
    by (cases "b = 1") (simp_all add: pow2_def pos_less_divide_eq mult.commute)
  from l u i show ?thesis by simp
qed


lemma round_half_even_near: "\<bar>of_int (round_half_even y) - y\<bar> \<le> 1 / 2"
proof -
  have "of_int \<lfloor>y\<rfloor> \<le> y" and "y < of_int \<lfloor>y\<rfloor> + 1" by linarith+
  then show ?thesis
    by (auto simp add: round_half_even_def Let_def abs_le_iff)
qed

lemma pow2_pos: "0 < pow2 q"
  by (simp add: pow2_def)

lemma to_double_near:
  assumes "to_double x = Fin r"
  shows "\<bar>r - x\<bar> \<le> pow2 (max (ilog2 \<bar>x\<bar> - 52) (- 1074)) / 2"
proof (cases "x = 0")
  case True
  with assms show ?thesis using pow2_pos [of "max (ilog2 \<bar>x\<bar> - 52) (- 1074)"]
    by (simp add: to_double_def)
next
  case False
  define q where "q = max (ilog2 \<bar>x\<bar> - 52) (- 1074)"
  define m where "m = round_half_even (\<bar>x\<bar> / pow2 q)"
  from assms False have r: "r = (if 0 < x then of_int m * pow2 q else - (of_int m * pow2 q))"
    by (simp add: to_double_def Let_def q_def m_def split: if_splits)
  have "\<bar>of_int m - \<bar>x\<bar> / pow2 q\<bar> \<le> 1 / 2"
    unfolding m_def by (rule round_half_even_near)
  then have "\<bar>of_int m - \<bar>x\<bar> / pow2 q\<bar> * pow2 q \<le> 1 / 2 * pow2 q"
    using pow2_pos [of q] by (simp only: mult_le_cancel_right_pos)
  moreover have "\<bar>of_int m - \<bar>x\<bar> / pow2 q\<bar> * pow2 q = \<bar>of_int m * pow2 q - \<bar>x\<bar>\<bar>"
  proof -
    have "\<bar>of_int m - \<bar>x\<bar> / pow2 q\<bar> * pow2 q = \<bar>(of_int m - \<bar>x\<bar> / pow2 q) * pow2 q\<bar>"
      using pow2_pos [of q] by (simp add: abs_mult)
    also have "(of_int m - \<bar>x\<bar> / pow2 q) * pow2 q = of_int m * pow2 q - \<bar>x\<bar>"
      using pow2_pos [of q] by (simp add: left_diff_distrib)
    finally show ?thesis .
  qed
  ultimately have "\<bar>of_int m * pow2 q - \<bar>x\<bar>\<bar> \<le> pow2 q / 2" by simp
  with r False show ?thesis unfolding q_def [symmetric]
    by (cases "0 < x") (simp_all add: abs_if split: if_splits)
qed

subsection \<open>The two paths of create and update\<close>

lemma createInvoice_invalid:
  assumes "CreateInvoice_safeParse (form_fields formData) = Inl iss"
  shows "createInvoice e prevState formData =
           (Returned (Some \<lparr>errors = Some (fieldErrors iss),
              message = Some ''Missing Fields. Failed to Create Invoice.''\<rparr>), [])"
    and "updateInvoice e id' prevState formData =
           (Returned (Some \<lparr>errors = Some (fieldErrors iss),
              message = Some ''Missing Fields. Failed to Create Invoice.''\<rparr>), [])"
  using assms by (simp_all add: createInvoice_def updateInvoice_def validateInvoiceForms_def)

lemma createInvoice_valid:
  assumes "CreateInvoice_safeParse (form_fields formData) = Inr d"
  shows "createInvoice e prevState formData =
     (let q = Insert_invoices (customerId d) (js_mul (amount d) (Fin 100)) (status d) (today e)
      in case sql e q of
           Some error \<Rightarrow> (Returned (Some (only_message ''Something went wrong'')), [Sql q])
         | None \<Rightarrow>
             (case revalidateRedirectPath e ''/dashboard/invoices'' of
                Some error \<Rightarrow>
                  (Thrown error, [Sql q, RevalidateRedirectPath ''/dashboard/invoices''])
              | None \<Rightarrow>
                  (Returned None, [Sql q, RevalidateRedirectPath ''/dashboard/invoices''])))"
  using assms
  by (simp add: createInvoice_def validateInvoiceForms_def CreateInvoice_parse_def Let_def)

lemma updateInvoice_valid:
  assumes "CreateInvoice_safeParse (form_fields formData) = Inr d"
  shows "updateInvoice e id' prevState formData =
     (let q = Update_invoices (customerId d) (js_mul (amount d) (Fin 100)) (status d) id'
      in case sql e q of
           Some error \<Rightarrow> (Returned (Some (only_message ''Somethign went wrong'')), [Sql q])
         | None \<Rightarrow>
             (case revalidateRedirectPath e ''/dashboard/invoices'' of
                Some error \<Rightarrow>
                  (Thrown error, [Sql q, RevalidateRedirectPath ''/dashboard/invoices''])
              | None \<Rightarrow>
                  (Returned None, [Sql q, RevalidateRedirectPath ''/dashboard/invoices''])))"
  using assms
  by (simp add: updateInvoice_def validateInvoiceForms_def CreateInvoice_parse_def
      UpdateInvoice_parse_def Let_def)

text \<open>Three forms the examples parse: an accepted one, and two amounts.\<close>

lemma parse_c1_10_pending:
  "CreateInvoice_safeParse (form_fields (Some [(''customerId'', Text ''c1''),
      (''amount'', Text ''10''), (''status'', Text ''pending'')]))
     = Inr \<lparr>customerId = ''c1'', amount = Fin 10, status = ''pending''\<rparr>"
  by (simp add: CreateInvoice_safeParse_def form_fields_def form_get_def customerId_schema_def
      amount_schema_def status_schema_def status_values_def number_10)

lemma parse_c1_45_5_pending:
  "CreateInvoice_safeParse (form_fields (Some [(''customerId'', Text ''c1''),
      (''amount'', Text ''45.5''), (''status'', Text ''pending'')]))
     = Inr \<lparr>customerId = ''c1'', amount = Fin (91 / 2), status = ''pending''\<rparr>"
  by (simp add: CreateInvoice_safeParse_def form_fields_def form_get_def customerId_schema_def
      amount_schema_def status_schema_def status_values_def number_45_5)

lemma parse_c1_1_1_paid:
  "CreateInvoice_safeParse (form_fields (Some [(''customerId'', Text ''c1''),
      (''amount'', Text ''1.1''), (''status'', Text ''paid'')]))
     = Inr \<lparr>customerId = ''c1'', amount = Fin (2476979795053773 / 2251799813685248),
            status = ''paid''\<rparr>"
  by (simp add: CreateInvoice_safeParse_def form_fields_def form_get_def customerId_schema_def
      amount_schema_def status_schema_def status_values_def number_1_1)

subsection \<open>The status field\<close>

text \<open>
  C3, as the code has it. The message \<^verbatim>\<open>Please select an invoice status.\<close> is the
  schema's \<^verbatim>\<open>invalid_type_error\<close>: validation attaches it to \<^verbatim>\<open>status\<close> when the
  form has no such entry or the entry is a file. A string other than \<^verbatim>\<open>pending\<close> and
  \<^verbatim>\<open>paid\<close> (\<^verbatim>\<open>overdue\<close>, the empty string) is an invalid enum value, and gets
  the library's default message, which names the two options and the string received.
  With no form data at all the message is \<^verbatim>\<open>Required\<close>. Exactly \<^verbatim>\<open>pending\<close> or
  \<^verbatim>\<open>paid\<close> gets no message, and whenever the whole input is accepted the parsed
  status is the string of the form, unchanged.
\<close>

theorem status_validation:
  "errors_at (validateInvoiceForms formData) ''status'' =
     (case formData of
        None \<Rightarrow> Some [''Required'']
      | Some fd \<Rightarrow>
          (case map_of fd ''status'' of
             None \<Rightarrow> Some [''Please select an invoice status.'']
           | Some Blob \<Rightarrow> Some [''Please select an invoice status.'']
           | Some (Text s) \<Rightarrow>
               if s = ''pending'' \<or> s = ''paid'' then None
               else Some [''Invalid enum value. Expected '' @ quoted ''pending'' @ '' | ''
                      @ quoted ''paid'' @ '', received '' @ quoted s]))
   \<and> (\<forall>d. CreateInvoice_safeParse (form_fields formData) = Inr d \<longrightarrow>
          form_get formData ''status'' = Str (status d)
          \<and> (status d = ''pending'' \<or> status d = ''paid''))"
proof -
  have "form_get formData ''status'' = Str (status d)
        \<and> (status d = ''pending'' \<or> status d = ''paid'')"
    if "CreateInvoice_safeParse (form_fields formData) = Inr d" for d
    using safeParse_form_Inr(3) [OF that]
    by (cases "form_get formData ''status''")
      (simp_all add: status_schema_def status_values_def split: if_splits)
  then show ?thesis
    by (simp add: errors_at_validate form_get_def status_schema_def status_values_def
        entry_of_def split: option.splits form_entry.splits)
qed

theorem status_validation_witness:
  "CreateInvoice_safeParse (form_fields (Some [(''customerId'', Text ''c1''),
      (''amount'', Text ''10''), (''status'', Text ''paid'')]))
     = Inr \<lparr>customerId = ''c1'', amount = Fin 10, status = ''paid''\<rparr>
   \<and> form_get (Some [(''customerId'', Text ''c1''), (''amount'', Text ''10''),
        (''status'', Text ''paid'')]) ''status'' = Str ''paid''
   \<and> errors_at (validateInvoiceForms (Some [(''customerId'', Text ''c1''),
        (''amount'', Text ''10''), (''status'', Text ''paid'')])) ''status'' = None"
  using status_validation [of "Some [(''customerId'', Text ''c1''), (''amount'', Text ''10''),
      (''status'', Text ''paid'')]"]
  by (simp add: CreateInvoice_safeParse_def form_fields_def form_get_def customerId_schema_def
      amount_schema_def status_schema_def status_values_def number_10)

theorem status_overdue_counterexample:
  "errors_at (validateInvoiceForms (Some [(''customerId'', Text ''c1''), (''amount'', Text ''10''),
      (''status'', Text ''overdue'')])) ''status''
     = Some [''Invalid enum value. Expected '' @ quoted ''pending'' @ '' | '' @ quoted ''paid''
              @ '', received '' @ quoted ''overdue'']
   \<and> ''Please select an invoice status.''
       \<notin> set (the (errors_at (validateInvoiceForms (Some [(''customerId'', Text ''c1''),
            (''amount'', Text ''10''), (''status'', Text ''overdue'')])) ''status''))"
  by (simp add: errors_at_validate form_get_def status_schema_def status_values_def
      entry_of_def quoted_def)

subsection \<open>The amount field\<close>

text \<open>
  C4, as the code has it. The message \<^verbatim>\<open>Please enter an amount greater than $0.\<close> is
  the message of the check \<^verbatim>\<open>gt(0)\<close>: validation attaches it to \<^verbatim>\<open>amount\<close> when the
  input coerces to a number that is not strictly greater than 0. An input that does not
  coerce to a number (\<^verbatim>\<open>abc\<close>) fails before that check, as an invalid type, with the
  library's default message \<^verbatim>\<open>Expected number, received nan\<close>. An input that coerces
  to a number strictly greater than 0 gets no message.
\<close>

theorem amount_validation:
  "errors_at (validateInvoiceForms formData) ''amount'' =
     (case js_Number (form_get formData ''amount'') of
        NaN \<Rightarrow> Some [''Expected number, received nan'']
      | PosInf \<Rightarrow> None
      | NegInf \<Rightarrow> Some [''Please enter an amount greater than $0.'']
      | Fin x \<Rightarrow>
          if 0 < x then None else Some [''Please enter an amount greater than $0.''])"
  by (simp add: errors_at_validate amount_schema_def Let_def entry_of_def
      split: js_number.splits)

theorem amount_abc_counterexample:
  "js_Number (form_get (Some [(''customerId'', Text ''c1''), (''amount'', Text ''abc''),
      (''status'', Text ''pending'')]) ''amount'') = NaN
   \<and> errors_at (validateInvoiceForms (Some [(''customerId'', Text ''c1''),
        (''amount'', Text ''abc''), (''status'', Text ''pending'')])) ''amount''
     = Some [''Expected number, received nan'']"
  by (simp add: errors_at_validate form_get_def amount_schema_def entry_of_def number_abc)

text \<open>
  The amounts of the examples: zero, a negative number, the empty string and a missing
  entry get the message of the check; 45.5 passes.
\<close>

lemma amount_validation_examples:
  "errors_at (validateInvoiceForms (Some [(''amount'', Text ''0'')])) ''amount''
     = Some [''Please enter an amount greater than $0.'']"
  "errors_at (validateInvoiceForms (Some [(''amount'', Text ''-5'')])) ''amount''
     = Some [''Please enter an amount greater than $0.'']"
  "errors_at (validateInvoiceForms (Some [(''amount'', Text [])])) ''amount''
     = Some [''Please enter an amount greater than $0.'']"
  "errors_at (validateInvoiceForms (Some [])) ''amount''
     = Some [''Please enter an amount greater than $0.'']"
  "errors_at (validateInvoiceForms (Some [(''amount'', Text ''45.5'')])) ''amount'' = None"
  by (simp_all add: errors_at_validate form_get_def amount_schema_def entry_of_def
      number_0 number_minus_5 number_empty number_45_5)

subsection \<open>The customer field\<close>

text \<open>
  C8, as the code has it. \<^verbatim>\<open>z.string\<close> carries no length check, so validation
  accepts the \<^verbatim>\<open>customerId\<close> field whenever it is a string, the empty string
  included. When the form has no such entry or the entry is a file, the message
  \<^verbatim>\<open>Please select a customer.\<close> is attached to the field; when no form data is
  passed at all the message is \<^verbatim>\<open>Required\<close>.
\<close>

theorem customerId_validation:
  "errors_at (validateInvoiceForms formData) ''customerId'' =
     (case formData of
        None \<Rightarrow> Some [''Required'']
      | Some fd \<Rightarrow>
          (case map_of fd ''customerId'' of
             None \<Rightarrow> Some [''Please select a customer.'']
           | Some Blob \<Rightarrow> Some [''Please select a customer.'']
           | Some (Text s) \<Rightarrow> None))"
  by (simp add: errors_at_validate form_get_def customerId_schema_def entry_of_def
      split: option.splits form_entry.splits)

theorem customerId_empty_counterexample:
  "errors_at (validateInvoiceForms (Some [(''customerId'', Text []), (''amount'', Text ''10''),
      (''status'', Text ''pending'')])) ''customerId'' = None
   \<and> validateInvoiceForms (Some [(''customerId'', Text []), (''amount'', Text ''10''),
        (''status'', Text ''pending'')]) = None
   \<and> snd (createInvoice env_ok None (Some [(''customerId'', Text []), (''amount'', Text ''10''),
        (''status'', Text ''pending'')]))
     = [Sql (Insert_invoices [] (Fin 1000) ''pending'' ''2024-03-01''),
        RevalidateRedirectPath ''/dashboard/invoices'']"
proof -
  have p: "CreateInvoice_safeParse (form_fields (Some [(''customerId'', Text []),
      (''amount'', Text ''10''), (''status'', Text ''pending'')]))
     = Inr \<lparr>customerId = [], amount = Fin 10, status = ''pending''\<rparr>"
    by (simp add: CreateInvoice_safeParse_def form_fields_def form_get_def customerId_schema_def
        amount_schema_def status_schema_def status_values_def number_10)
  then have v: "validateInvoiceForms (Some [(''customerId'', Text []), (''amount'', Text ''10''),
      (''status'', Text ''pending'')]) = None"
    by (simp add: validateInvoiceForms_def)
  from v show ?thesis
    by (simp add: createInvoice_valid [OF p] errors_at_def times_100_of_10 env_ok_def
        del: js_mul.simps)
qed

subsection \<open>Rejected input\<close>

text \<open>
  C1. When the schema of at least one of the three fields rejects its input,
  \<^verbatim>\<open>createInvoice\<close> and \<^verbatim>\<open>updateInvoice\<close> return the same result: its top-level
  message is \<^verbatim>\<open>Missing Fields. Failed to Create Invoice.\<close>, its errors hold, for each
  of the three fields, exactly the messages of that field's schema (an entry for every
  failing field, none for a field that passes), and no external call is issued: no
  statement reaches the executor.
\<close>

theorem validation_failure_reports_every_field:
  assumes "isl (customerId_schema (form_get formData ''customerId''))
         \<or> isl (amount_schema (form_get formData ''amount''))
         \<or> isl (status_schema (form_get formData ''status''))"
  shows "\<exists>m. createInvoice e prevState formData =
                (Returned (Some \<lparr>errors = Some m,
                   message = Some ''Missing Fields. Failed to Create Invoice.''\<rparr>), [])
            \<and> updateInvoice e id' prevState formData =
                (Returned (Some \<lparr>errors = Some m,
                   message = Some ''Missing Fields. Failed to Create Invoice.''\<rparr>), [])
            \<and> m ''customerId'' = entry_of (customerId_schema (form_get formData ''customerId''))
            \<and> m ''amount'' = entry_of (amount_schema (form_get formData ''amount''))
            \<and> m ''status'' = entry_of (status_schema (form_get formData ''status''))"
proof (cases "CreateInvoice_safeParse (form_fields formData)")
  case (Inl iss)
  from safeParse_Inl [OF Inl] createInvoice_invalid [OF Inl] show ?thesis
    by (simp add: form_fields_def)
next
  case (Inr d)
  from safeParse_form_Inr [OF Inr] assms show ?thesis by simp
qed

theorem validation_failure_reports_every_field_witness:
  "\<exists>m. createInvoice env_ok None (Some [(''amount'', Text ''0''), (''status'', Text ''bad'')]) =
          (Returned (Some \<lparr>errors = Some m,
             message = Some ''Missing Fields. Failed to Create Invoice.''\<rparr>), [])
      \<and> updateInvoice env_ok (Some ''inv-1'') None
            (Some [(''amount'', Text ''0''), (''status'', Text ''bad'')]) =
          (Returned (Some \<lparr>errors = Some m,
             message = Some ''Missing Fields. Failed to Create Invoice.''\<rparr>), [])
      \<and> m ''customerId'' = Some [''Please select a customer.'']
      \<and> m ''amount'' = Some [''Please enter an amount greater than $0.'']
      \<and> m ''status'' = Some [''Invalid enum value. Expected '' @ quoted ''pending'' @ '' | ''
                            @ quoted ''paid'' @ '', received '' @ quoted ''bad'']"
  using validation_failure_reports_every_field
    [of "Some [(''amount'', Text ''0''), (''status'', Text ''bad'')]" env_ok None "Some ''inv-1''"]
  by (simp add: form_get_def customerId_schema_def amount_schema_def status_schema_def
      status_values_def entry_of_def number_0)

subsection \<open>A failing executor during update\<close>

text \<open>
  C2. When the input passes validation and the executor raises on the update statement,
  \<^verbatim>\<open>updateInvoice\<close> returns a value and raises nothing, with the statement as its
  only external call. The message of the value returned is spelled
  \<^verbatim>\<open>Somethign went wrong\<close> in \<^verbatim>\<open>updateInvoice\<close>, which is not the
  \<^verbatim>\<open>Something went wrong\<close> of \<^verbatim>\<open>createInvoice\<close> and \<^verbatim>\<open>deleteInvoice\<close>.
\<close>

theorem updateInvoice_persistence_error:
  assumes "CreateInvoice_safeParse (form_fields formData) = Inr d"
    and "sql e (Update_invoices (customerId d) (js_mul (amount d) (Fin 100)) (status d) id')
           = Some err"
  shows "updateInvoice e id' prevState formData =
           (Returned (Some (only_message ''Somethign went wrong'')),
            [Sql (Update_invoices (customerId d) (js_mul (amount d) (Fin 100)) (status d) id')])
       \<and> only_message ''Somethign went wrong'' \<noteq> only_message ''Something went wrong''"
  using assms(2) by (simp add: updateInvoice_valid [OF assms(1)] only_message_def)

theorem updateInvoice_persistence_error_witness:
  "updateInvoice (env_ok\<lparr>sql := \<lambda>q. Some (OtherError ''connection refused'')\<rparr>) (Some ''inv-1'') None
      (Some [(''customerId'', Text ''c1''), (''amount'', Text ''10''), (''status'', Text ''pending'')])
     = (Returned (Some (only_message ''Somethign went wrong'')),
        [Sql (Update_invoices ''c1'' (Fin 1000) ''pending'' (Some ''inv-1''))])
   \<and> only_message ''Somethign went wrong'' \<noteq> only_message ''Something went wrong''"
  using updateInvoice_persistence_error [OF parse_c1_10_pending,
      of "env_ok\<lparr>sql := \<lambda>q. Some (OtherError ''connection refused'')\<rparr>" "Some ''inv-1''"
         "OtherError ''connection refused''" None]
  by (simp add: times_100_of_10 del: js_mul.simps)

subsection \<open>The amount persisted\<close>

text \<open>
  C5, as the code has it. For every input that passes validation, the amount bound into
  the insert and the update statement is \<^verbatim>\<open>amount * 100\<close> as JavaScript computes it:
  the binary64 product of the coerced amount and 100. Whenever the exact product is a
  whole number below \<open>2\<^sup>5\<^sup>3\<close> the value persisted is that whole number (45.5 gives
  4550). Otherwise the product is rounded and need not be an integer: the input 1.1 is
  read as the nearest binary64 value, and its product with 100 is persisted as
  110.00000000000001.
\<close>

theorem persisted_amount:
  assumes "CreateInvoice_safeParse (form_fields formData) = Inr d"
  shows "amount d = js_Number (form_get formData ''amount'')
       \<and> hd (snd (createInvoice e prevState formData))
           = Sql (Insert_invoices (customerId d) (js_mul (amount d) (Fin 100)) (status d) (today e))
       \<and> hd (snd (updateInvoice e id' prevState formData))
           = Sql (Update_invoices (customerId d) (js_mul (amount d) (Fin 100)) (status d) id')
       \<and> (\<forall>a n. amount d = Fin a \<and> a * 100 = of_int n \<and> n < 2 ^ 53 \<longrightarrow>
             js_mul (amount d) (Fin 100) = Fin (of_int n) \<and> is_integer (Fin (of_int n)))"
proof -
  have a: "amount_schema (form_get formData ''amount'') = Inr (amount d)"
    by (rule safeParse_form_Inr(2) [OF assms])
  then have n: "amount d = js_Number (form_get formData ''amount'')"
    by (simp add: amount_schema_def Let_def split: if_splits)
  have exact: "js_mul (amount d) (Fin 100) = Fin (of_int n) \<and> is_integer (Fin (of_int n))"
    if h: "amount d = Fin a" "a * 100 = of_int n" "n < 2 ^ 53" for a n
  proof -
    from n h(1) have "js_Number (form_get formData ''amount'') = Fin a" by simp
    with a have "0 < a"
      by (simp add: amount_schema_def Let_def split: if_splits)
    with h(2) have "0 < rat_of_int n" by (metis mult_pos_pos zero_less_numeral)
    then have "0 < n" by simp
    from to_double_of_int [OF this h(3)] h(1,2) show ?thesis by simp
  qed
  from n exact show ?thesis
    by (auto simp add: createInvoice_valid [OF assms] updateInvoice_valid [OF assms] Let_def
        split: option.splits)
qed

theorem persisted_amount_witness:
  "hd (snd (createInvoice env_ok None (Some [(''customerId'', Text ''c1''),
      (''amount'', Text ''45.5''), (''status'', Text ''pending'')])))
     = Sql (Insert_invoices ''c1'' (Fin 4550) ''pending'' ''2024-03-01'')
   \<and> hd (snd (updateInvoice env_ok (Some ''inv-1'') None (Some [(''customerId'', Text ''c1''),
        (''amount'', Text ''45.5''), (''status'', Text ''pending'')])))
     = Sql (Update_invoices ''c1'' (Fin 4550) ''pending'' (Some ''inv-1''))
   \<and> is_integer (Fin 4550)"
proof -
  note t = persisted_amount [OF parse_c1_45_5_pending, of env_ok None "Some ''inv-1''",
      unfolded invoice_fields.select_convs]
  note ins = t [THEN conjunct2, THEN conjunct1]
  note upd = t [THEN conjunct2, THEN conjunct2, THEN conjunct1]
  note whole = t [THEN conjunct2, THEN conjunct2, THEN conjunct2, rule_format, of "91 / 2" 4550]
  from whole have "js_mul (Fin (91 / 2)) (Fin 100) = Fin 4550 \<and> is_integer (Fin 4550)"
    by (simp del: js_mul.simps is_integer.simps)
  with ins upd show ?thesis
    by (simp add: env_ok_def del: js_mul.simps is_integer.simps)
qed

theorem persisted_amount_counterexample:
  "js_Number (form_get (Some [(''customerId'', Text ''c1''), (''amount'', Text ''1.1''),
      (''status'', Text ''paid'')]) ''amount'') = Fin (2476979795053773 / 2251799813685248)
   \<and> snd (createInvoice env_ok None (Some [(''customerId'', Text ''c1''),
        (''amount'', Text ''1.1''), (''status'', Text ''paid'')]))
     = [Sql (Insert_invoices ''c1'' (Fin (7740561859543041 / 70368744177664)) ''paid''
          ''2024-03-01''),
        RevalidateRedirectPath ''/dashboard/invoices'']
   \<and> (7740561859543041 / 70368744177664 :: rat) \<noteq> 2476979795053773 / 2251799813685248 * 100
   \<and> \<not> is_integer (Fin (7740561859543041 / 70368744177664))"
  by (simp add: createInvoice_valid [OF parse_c1_1_1_paid] times_100_of_1_1 not_integer_110
      env_ok_def form_get_def number_1_1 del: js_mul.simps is_integer.simps)

subsection \<open>The second parse\<close>

text \<open>
  C9. Whenever \<^verbatim>\<open>safeParse\<close> accepts the input, the strict \<^verbatim>\<open>parse\<close> of the same
  input in \<^verbatim>\<open>createInvoice\<close> and in \<^verbatim>\<open>updateInvoice\<close> succeeds with the same
  data, so the statement is always issued: the catch block is never entered from the
  second parse, and the action returns its generic failure message exactly when the
  executor raised on the statement.
\<close>

theorem second_parse_succeeds:
  assumes "CreateInvoice_safeParse (form_fields formData) = Inr d"
  shows "CreateInvoice_parse (form_fields formData) = Inr d
       \<and> UpdateInvoice_parse (form_fields formData) = Inr d
       \<and> snd (createInvoice e prevState formData) \<noteq> []
       \<and> hd (snd (createInvoice e prevState formData))
           = Sql (Insert_invoices (customerId d) (js_mul (amount d) (Fin 100)) (status d) (today e))
       \<and> snd (updateInvoice e id' prevState formData) \<noteq> []
       \<and> hd (snd (updateInvoice e id' prevState formData))
           = Sql (Update_invoices (customerId d) (js_mul (amount d) (Fin 100)) (status d) id')
       \<and> (fst (createInvoice e prevState formData)
             = Returned (Some (only_message ''Something went wrong''))
           \<longleftrightarrow> sql e (Insert_invoices (customerId d) (js_mul (amount d) (Fin 100)) (status d)
                 (today e)) \<noteq> None)
       \<and> (fst (updateInvoice e id' prevState formData)
             = Returned (Some (only_message ''Somethign went wrong''))
           \<longleftrightarrow> sql e (Update_invoices (customerId d) (js_mul (amount d) (Fin 100)) (status d)
                 id') \<noteq> None)"
  using assms
  by (auto simp add: createInvoice_valid [OF assms] updateInvoice_valid [OF assms]
      CreateInvoice_parse_def UpdateInvoice_parse_def Let_def split: option.splits)

theorem second_parse_succeeds_witness:
  "CreateInvoice_parse (form_fields (Some [(''customerId'', Text ''c1''),
      (''amount'', Text ''10''), (''status'', Text ''pending'')]))
     = Inr \<lparr>customerId = ''c1'', amount = Fin 10, status = ''pending''\<rparr>
   \<and> UpdateInvoice_parse (form_fields (Some [(''customerId'', Text ''c1''),
        (''amount'', Text ''10''), (''status'', Text ''pending'')]))
     = Inr \<lparr>customerId = ''c1'', amount = Fin 10, status = ''pending''\<rparr>
   \<and> hd (snd (createInvoice env_ok None (Some [(''customerId'', Text ''c1''),
        (''amount'', Text ''10''), (''status'', Text ''pending'')])))
     = Sql (Insert_invoices ''c1'' (Fin 1000) ''pending'' ''2024-03-01'')
   \<and> hd (snd (updateInvoice env_ok (Some ''inv-7'') None (Some [(''customerId'', Text ''c1''),
        (''amount'', Text ''10''), (''status'', Text ''pending'')])))
     = Sql (Update_invoices ''c1'' (Fin 1000) ''pending'' (Some ''inv-7''))
   \<and> fst (createInvoice env_ok None (Some [(''customerId'', Text ''c1''),
        (''amount'', Text ''10''), (''status'', Text ''pending'')]))
     \<noteq> Returned (Some (only_message ''Something went wrong''))
   \<and> fst (updateInvoice env_ok (Some ''inv-7'') None (Some [(''customerId'', Text ''c1''),
        (''amount'', Text ''10''), (''status'', Text ''pending'')]))
     \<noteq> Returned (Some (only_message ''Somethign went wrong''))"
  using second_parse_succeeds [OF parse_c1_10_pending, of env_ok None "Some ''inv-7''"]
  by (simp add: times_100_of_10 env_ok_def del: js_mul.simps)

subsection \<open>Delete\<close>

text \<open>
  C6, as the code has it. For every id, \<^verbatim>\<open>deleteInvoice\<close> validates nothing: its first
  external call is the delete statement for that id. When the statement and the
  invalidation that follows it both complete, it returns exactly
  \<^verbatim>\<open>{message: "Deleted Invoice."}\<close>, after the plain invalidation of
  \<^verbatim>\<open>/dashboard/invoices\<close>. When the executor raises it returns exactly
  \<^verbatim>\<open>{message: "Something went wrong"}\<close>, and it never raises an error to its caller.
  The invalidation stands inside the \<^verbatim>\<open>try\<close> block: a delete statement that
  succeeded is not enough for the success message.
\<close>

theorem deleteInvoice_result:
  "(sql e (Delete_invoices i) = None \<and> revalidatePath e ''/dashboard/invoices'' = None \<longrightarrow>
      deleteInvoice e i =
        (Returned (only_message ''Deleted Invoice.''),
         [Sql (Delete_invoices i), RevalidatePath ''/dashboard/invoices'']))
   \<and> (sql e (Delete_invoices i) \<noteq> None \<longrightarrow>
        deleteInvoice e i =
          (Returned (only_message ''Something went wrong''), [Sql (Delete_invoices i)]))
   \<and> (\<forall>x. fst (deleteInvoice e i) \<noteq> Thrown x)
   \<and> hd (snd (deleteInvoice e i)) = Sql (Delete_invoices i)"
  by (auto simp add: deleteInvoice_def Let_def split: option.splits)

theorem deleteInvoice_result_witness:
  "deleteInvoice env_ok ''x'' =
     (Returned (only_message ''Deleted Invoice.''),
      [Sql (Delete_invoices ''x''), RevalidatePath ''/dashboard/invoices''])
   \<and> deleteInvoice (env_ok\<lparr>sql := \<lambda>q. Some (OtherError ''connection refused'')\<rparr>) ''x'' =
       (Returned (only_message ''Something went wrong''), [Sql (Delete_invoices ''x'')])"
  using deleteInvoice_result [of env_ok "''x''"]
    deleteInvoice_result [of "env_ok\<lparr>sql := \<lambda>q. Some (OtherError ''connection refused'')\<rparr>" "''x''"]
  by (simp add: env_ok_def)

theorem deleteInvoice_success_counterexample:
  "sql (env_ok\<lparr>revalidatePath := \<lambda>p. Some (OtherError ''invariant'')\<rparr>) (Delete_invoices ''x'')
     = None
   \<and> deleteInvoice (env_ok\<lparr>revalidatePath := \<lambda>p. Some (OtherError ''invariant'')\<rparr>) ''x'' =
       (Returned (only_message ''Something went wrong''),
        [Sql (Delete_invoices ''x''), RevalidatePath ''/dashboard/invoices''])
   \<and> fst (deleteInvoice (env_ok\<lparr>revalidatePath := \<lambda>p. Some (OtherError ''invariant'')\<rparr>) ''x'')
       \<noteq> Returned (only_message ''Deleted Invoice.'')"
  by (simp add: deleteInvoice_def env_ok_def only_message_def)

text \<open>
  C10. \<^verbatim>\<open>deleteInvoice\<close> returns the success message exactly when the delete
  statement and the invalidation after it both complete. When the statement completes
  and the invalidation raises, the caller receives the generic failure message although
  the statement was executed: that message does not say the record is still there.
\<close>

theorem deleteInvoice_success_needs_both:
  "(fst (deleteInvoice e i) = Returned (only_message ''Deleted Invoice.'')
      \<longleftrightarrow> sql e (Delete_invoices i) = None \<and> revalidatePath e ''/dashboard/invoices'' = None)
   \<and> (sql e (Delete_invoices i) = None \<and> revalidatePath e ''/dashboard/invoices'' \<noteq> None \<longrightarrow>
        deleteInvoice e i =
          (Returned (only_message ''Something went wrong''),
           [Sql (Delete_invoices i), RevalidatePath ''/dashboard/invoices'']))"
  by (auto simp add: deleteInvoice_def Let_def only_message_def split: option.splits)

theorem deleteInvoice_success_needs_both_witness:
  "deleteInvoice (env_ok\<lparr>revalidatePath := \<lambda>p. Some (OtherError ''store missing'')\<rparr>) ''inv-2'' =
     (Returned (only_message ''Something went wrong''),
      [Sql (Delete_invoices ''inv-2''), RevalidatePath ''/dashboard/invoices''])
   \<and> fst (deleteInvoice env_ok ''inv-2'') = Returned (only_message ''Deleted Invoice.'')"
  using deleteInvoice_success_needs_both
      [of "env_ok\<lparr>revalidatePath := \<lambda>p. Some (OtherError ''store missing'')\<rparr>" "''inv-2''"]
    deleteInvoice_success_needs_both [of env_ok "''inv-2''"]
  by (simp add: env_ok_def)

subsection \<open>Sign-in\<close>

text \<open>
  C7. When \<^verbatim>\<open>signIn\<close> raises an \<^verbatim>\<open>AuthError\<close> of type \<^verbatim>\<open>CredentialsSignin\<close>,
  \<^verbatim>\<open>authenticate\<close> returns \<^verbatim>\<open>Invalid credentials.\<close>; for an \<^verbatim>\<open>AuthError\<close> of any
  other type it returns \<^verbatim>\<open>Something went wrong.\<close>; an error that is not an
  \<^verbatim>\<open>AuthError\<close> is raised again, unchanged; and when \<^verbatim>\<open>signIn\<close> completes,
  \<^verbatim>\<open>authenticate\<close> returns no value.
\<close>

theorem authenticate_result:
  "(signIn e ''credentials'' formData = Some (AuthError ''CredentialsSignin'') \<longrightarrow>
      fst (authenticate e prevState formData) = Returned (Some ''Invalid credentials.''))
   \<and> (\<forall>t. signIn e ''credentials'' formData = Some (AuthError t) \<and> t \<noteq> ''CredentialsSignin'' \<longrightarrow>
        fst (authenticate e prevState formData) = Returned (Some ''Something went wrong.''))
   \<and> (\<forall>x. signIn e ''credentials'' formData = Some x \<and> (\<forall>t. x \<noteq> AuthError t) \<longrightarrow>
        fst (authenticate e prevState formData) = Thrown x)
   \<and> (signIn e ''credentials'' formData = None \<longrightarrow>
        fst (authenticate e prevState formData) = Returned None)"
  by (auto simp add: authenticate_def split: exn.splits)

theorem authenticate_result_witness:
  "fst (authenticate (env_ok\<lparr>signIn := \<lambda>p f. Some (AuthError ''CredentialsSignin'')\<rparr>) None
          [(''email'', Text ''user@nextmail.com''), (''password'', Text ''123456'')])
     = Returned (Some ''Invalid credentials.'')
   \<and> fst (authenticate (env_ok\<lparr>signIn := \<lambda>p f. Some (AuthError ''CallbackRouteError'')\<rparr>) None
          [(''email'', Text ''user@nextmail.com''), (''password'', Text ''123456'')])
     = Returned (Some ''Something went wrong.'')
   \<and> fst (authenticate (env_ok\<lparr>signIn := \<lambda>p f. Some (OtherError ''NEXT_REDIRECT'')\<rparr>) None
          [(''email'', Text ''user@nextmail.com''), (''password'', Text ''123456'')])
     = Thrown (OtherError ''NEXT_REDIRECT'')
   \<and> fst (authenticate env_ok None
          [(''email'', Text ''user@nextmail.com''), (''password'', Text ''123456'')])
     = Returned None"
  using authenticate_result
      [of "env_ok\<lparr>signIn := \<lambda>p f. Some (AuthError ''CredentialsSignin'')\<rparr>"
          "[(''email'', Text ''user@nextmail.com''), (''password'', Text ''123456'')]" None]
    authenticate_result
      [of "env_ok\<lparr>signIn := \<lambda>p f. Some (AuthError ''CallbackRouteError'')\<rparr>"
          "[(''email'', Text ''user@nextmail.com''), (''password'', Text ''123456'')]" None]
    authenticate_result
      [of "env_ok\<lparr>signIn := \<lambda>p f. Some (OtherError ''NEXT_REDIRECT'')\<rparr>"
          "[(''email'', Text ''user@nextmail.com''), (''password'', Text ''123456'')]" None]
    authenticate_result
      [of env_ok "[(''email'', Text ''user@nextmail.com''), (''password'', Text ''123456'')]" None]
  by (simp add: env_ok_def)

end
